theory Spec2Isabelle
  imports Complex_Main
begin

section \<open>Flight snapshots\<close>

text \<open>
  The client polls the OpenSky REST API, keeps the last snapshot in the browser's
  \<^verbatim>\<open>localStorage\<close>, mirrors it to a serverless endpoint and falls back to
  cached data when the API fails. This theory embeds \<^verbatim>\<open>src/utils/storage.ts\<close>, its
  older copy without the mirror, \<^verbatim>\<open>src/api/opensky.ts\<close> and the refresh cycle
  \<^verbatim>\<open>fetchData\<close> of \<^verbatim>\<open>src/app.tsx\<close>.

  A state vector is \<^verbatim>\<open>any[]\<close>: an array of JSON values. The source guards against a
  \<^verbatim>\<open>null\<close> entry (\<^verbatim>\<open>!state\<close>), so an entry is an optional array.
\<close>

datatype jsval =
    JNull
  | JBool bool
  | JNum real
  | JStr string
  | JArr "jsval list"
  | JObj "(string \<times> jsval) list"

type_synonym state = "jsval list option"

text \<open>
  \<^verbatim>\<open>interface FlightData { time: number; states: any[][] }\<close>. Every consumer tests
  \<^verbatim>\<open>data.states\<close> for presence before using it, so the field is optional here.
\<close>

record FlightData =
  time :: real
  states :: "state list option"

section \<open>The browser's localStorage\<close>

text \<open>
  The three keys \<^verbatim>\<open>opensky_flight_data\<close>, \<^verbatim>\<open>opensky_flight_timestamp\<close> and
  \<^verbatim>\<open>opensky_api_failure_count\<close>. \<^verbatim>\<open>getItem\<close> of an absent key is \<^verbatim>\<open>null\<close>, here
  \<open>None\<close>. A stored text is represented by the value it denotes: the program only
  writes \<^verbatim>\<open>JSON.stringify(data)\<close>, \<^verbatim>\<open>Date.now().toString()\<close> and
  \<^verbatim>\<open>(count + 1).toString()\<close>, which \<^verbatim>\<open>JSON.parse\<close> and \<^verbatim>\<open>parseInt(_, 10)\<close>
  read back unchanged. Times are milliseconds since the epoch.
\<close>

record localStorage =
  opensky_flight_data :: "FlightData option"
  opensky_flight_timestamp :: "int option"
  opensky_api_failure_count :: "int option"

text \<open>A \<^verbatim>\<open>setItem\<close> request: the key together with the value written under it.\<close>

datatype item = Data FlightData | Timestamp int | FailureCount int

text \<open>
  What the program can throw: a \<^verbatim>\<open>DOMException\<close> named \<^verbatim>\<open>QuotaExceededError\<close> or
  another one, a \<^verbatim>\<open>TypeError\<close> (a rejected \<^verbatim>\<open>fetch\<close>, a method call on a value
  without it), a \<^verbatim>\<open>SyntaxError\<close> (a body that is not JSON), and the four
  \<^verbatim>\<open>Error\<close>s that \<^verbatim>\<open>fetchBrazilFlights\<close> raises, told apart by their message.
\<close>

datatype exn =
    QuotaExceededError
  | OtherDOMException
  | TypeError
  | SyntaxError
  | RateLimitExceeded
  | Unauthorized
  | HttpError nat
  | InvalidResponseFormat

text \<open>
  \<^verbatim>\<open>setItem\<close> can throw. Whether the medium accepts a write is the browser's
  decision: it is a parameter \<open>M\<close> of every writing operation, a function of the
  current content and the request (\<open>None\<close>: accepted). \<^verbatim>\<open>getItem\<close> and
  \<^verbatim>\<open>removeItem\<close> do not fail.
\<close>

type_synonym medium = "localStorage \<Rightarrow> item \<Rightarrow> exn option"

definition store :: "item \<Rightarrow> localStorage \<Rightarrow> localStorage" where
  "store i s = (case i of
       Data d \<Rightarrow> s\<lparr>opensky_flight_data := Some d\<rparr>
     | Timestamp t \<Rightarrow> s\<lparr>opensky_flight_timestamp := Some t\<rparr>
     | FailureCount c \<Rightarrow> s\<lparr>opensky_api_failure_count := Some c\<rparr>)"

text \<open>A rejected write leaves the storage as it was.\<close>

definition setItem :: "medium \<Rightarrow> item \<Rightarrow> localStorage \<Rightarrow> exn + localStorage" where
  "setItem M i s = (case M s i of Some e \<Rightarrow> Inl e | None \<Rightarrow> Inr (store i s))"

definition CACHE_DURATION :: int where
  "CACHE_DURATION = 5 * 60 * 1000"

definition EXTENDED_CACHE_DURATION :: int where
  "EXTENDED_CACHE_DURATION = 24 * 60 * 60 * 1000"

text \<open>\<^verbatim>\<open>parseInt(localStorage.getItem(STORAGE_API_FAILURE_KEY) || '0', 10)\<close>\<close>

definition failureCount :: "localStorage \<Rightarrow> int" where
  "failureCount s = (case opensky_api_failure_count s of None \<Rightarrow> 0 | Some c \<Rightarrow> c)"

text \<open>
  \<^verbatim>\<open>const cacheDuration = failureCount > 3 ? EXTENDED_CACHE_DURATION : CACHE_DURATION\<close>,
  the local constant of \<^verbatim>\<open>loadFlightData\<close>.
\<close>

definition cacheDuration :: "int \<Rightarrow> int" where
  "cacheDuration n = (if n > 3 then EXTENDED_CACHE_DURATION else CACHE_DURATION)"

definition clearFlightData :: "localStorage \<Rightarrow> localStorage" where
  "clearFlightData s = s\<lparr>opensky_flight_data := None, opensky_flight_timestamp := None\<rparr>"

definition loadFlightData :: "int \<Rightarrow> localStorage \<Rightarrow> FlightData option" where
  "loadFlightData now s =
     (case opensky_flight_timestamp s of
        None \<Rightarrow> None
      | Some timestamp \<Rightarrow>
          let age = now - timestamp in
          if age > cacheDuration (failureCount s) then None
          else (case opensky_flight_data s of None \<Rightarrow> None | Some parsed \<Rightarrow> Some parsed))"

definition loadFlightDataEmergency :: "localStorage \<Rightarrow> FlightData option" where
  "loadFlightDataEmergency s =
     (case opensky_flight_data s of None \<Rightarrow> None | Some parsed \<Rightarrow> Some parsed)"

text \<open>
  \<^verbatim>\<open>recordApiFailure(): void\<close>. A rejected write is caught and logged, the storage
  stays as it was.
\<close>

definition recordApiFailure :: "medium \<Rightarrow> localStorage \<Rightarrow> localStorage" where
  "recordApiFailure M s =
     (let count = failureCount s in
      case setItem M (FailureCount (count + 1)) s of Inl e \<Rightarrow> s | Inr s' \<Rightarrow> s')"

section \<open>HTTP exchanges\<close>

text \<open>
  What \<^verbatim>\<open>await fetch(url)\<close> gives: the promise rejects (no connection), or it resolves
  to a response with its \<^verbatim>\<open>ok\<close> flag, its status and a body. \<^verbatim>\<open>response.json()\<close>
  rejects when the body is not JSON (\<open>None\<close>) and gives a JSON object otherwise.
\<close>

datatype 'b response = Response (ok: bool) (status: nat) (json: "'b option")

datatype 'b fetched = Rejected | Resolved "'b response"

section \<open>The remote mirror and the static snapshot\<close>

text \<open>
  \<^verbatim>\<open>saveFlightDataToVercel\<close> is an async function whose body is one
  \<^verbatim>\<open>try\<close>/\<^verbatim>\<open>catch\<close>. Its promise settles to \<open>Inr b\<close> (fulfilled with \<open>b\<close>) or
  \<open>Inl e\<close> (rejected). \<open>post\<close> is the outcome of the \<^verbatim>\<open>POST /api/flight-data\<close>.
\<close>

definition saveFlightDataToVercel :: "unit fetched \<Rightarrow> FlightData option \<Rightarrow> exn + bool" where
  "saveFlightDataToVercel post data =
     (let try =
        (case data of
           None \<Rightarrow> Inr False
         | Some d \<Rightarrow>
             (case states d of
                None \<Rightarrow> Inr False
              | Some xs \<Rightarrow>
                  if xs = [] then Inr False
                  else (case post of
                          Rejected \<Rightarrow> Inl TypeError
                        | Resolved response \<Rightarrow>
                            if ok response
                            then (case json response of
                                    None \<Rightarrow> Inl SyntaxError
                                  | Some ack \<Rightarrow> Inr True)
                            else Inr False)))
      in case try of Inl error \<Rightarrow> Inr False | Inr b \<Rightarrow> Inr b)"

text \<open>The body of \<^verbatim>\<open>GET /api/flight-data\<close>: \<^verbatim>\<open>{ success, data, timestamp }\<close>.\<close>

record mirror_reply =
  reply_success :: bool
  reply_data :: "FlightData option"

definition loadFlightDataFromVercel :: "mirror_reply fetched \<Rightarrow> FlightData option" where
  "loadFlightDataFromVercel get =
     (case get of
        Rejected \<Rightarrow> None
      | Resolved response \<Rightarrow>
          if \<not> ok response then None
          else (case json response of
                  None \<Rightarrow> None
                | Some result \<Rightarrow>
                    if reply_success result
                    then (case reply_data result of
                            None \<Rightarrow> None
                          | Some d \<Rightarrow> (case states d of None \<Rightarrow> None | Some xs \<Rightarrow> Some d))
                    else None))"

definition loadStaticFlightData :: "FlightData fetched \<Rightarrow> FlightData option" where
  "loadStaticFlightData get =
     (case get of
        Rejected \<Rightarrow> None
      | Resolved response \<Rightarrow>
          if \<not> ok response then None
          else (case json response of
                  None \<Rightarrow> None
                | Some d \<Rightarrow> (case states d of None \<Rightarrow> None | Some xs \<Rightarrow> Some d)))"

section \<open>Saving a snapshot\<close>

text \<open>
  \<^verbatim>\<open>saveFlightData\<close> of \<^verbatim>\<open>src/utils/storage.ts\<close>. It returns nothing; the model
  returns the storage it leaves and the settled promise of the mirror push when one
  was started (the source does not await it). \<open>saveFlightData_catch\<close> is its
  \<^verbatim>\<open>catch\<close> block, entered with the storage as it is when the exception is thrown.
  \<open>now\<close> is \<^verbatim>\<open>Date.now()\<close>; the function runs without suspending, and the model
  reads the clock once for it.
\<close>

definition saveFlightData_catch ::
  "medium \<Rightarrow> unit fetched \<Rightarrow> int \<Rightarrow> FlightData \<Rightarrow> exn \<Rightarrow> localStorage
     \<Rightarrow> localStorage \<times> (exn + bool) option" where
  "saveFlightData_catch M post now d error s =
     (if error = QuotaExceededError then
        (let s0 = clearFlightData s in
         case setItem M (Data d) s0 of
           Inl retryError \<Rightarrow> (s0, None)
         | Inr s1 \<Rightarrow>
             (case setItem M (Timestamp now) s1 of
                Inl retryError \<Rightarrow> (s1, None)
              | Inr s2 \<Rightarrow> (s2, Some (saveFlightDataToVercel post (Some d)))))
      else (s, None))"

definition saveFlightData ::
  "medium \<Rightarrow> unit fetched \<Rightarrow> int \<Rightarrow> FlightData option \<Rightarrow> localStorage
     \<Rightarrow> localStorage \<times> (exn + bool) option" where
  "saveFlightData M post now data s =
     (case data of
        None \<Rightarrow> (s, None)
      | Some d \<Rightarrow>
          (case states d of
             None \<Rightarrow> (s, None)
           | Some xs \<Rightarrow>
               if xs = [] then (s, None)
               else (case setItem M (Data d) s of
                       Inl error \<Rightarrow> saveFlightData_catch M post now d error s
                     | Inr s1 \<Rightarrow>
                         (case setItem M (Timestamp now) s1 of
                            Inl error \<Rightarrow> saveFlightData_catch M post now d error s1
                          | Inr s2 \<Rightarrow>
                              (s2\<lparr>opensky_api_failure_count := None\<rparr>,
                               Some (saveFlightDataToVercel post (Some d)))))))"

subsection \<open>The copy without the mirror\<close>

text \<open>
  The repository has a second storage module with the same five local functions and
  no mirror push. Its \<^verbatim>\<open>saveFlightData\<close> and \<^verbatim>\<open>loadFlightData\<close> are embedded on
  their own, under the suffix \<open>_local\<close>; \<open>count\<close> and \<open>duration\<close> are its
  \<^verbatim>\<open>failureCount\<close> and \<^verbatim>\<open>cacheDuration\<close>.
\<close>

definition saveFlightData_local ::
  "medium \<Rightarrow> int \<Rightarrow> FlightData option \<Rightarrow> localStorage \<Rightarrow> localStorage" where
  "saveFlightData_local M now data s =
     (if data = None \<or> states (the data) = None \<or> the (states (the data)) = [] then s
      else
        (let d = the data;
             first = (case setItem M (Data d) s of
                        Inl error \<Rightarrow> Inl (error, s)
                      | Inr s1 \<Rightarrow>
                          (case setItem M (Timestamp now) s1 of
                             Inl error \<Rightarrow> Inl (error, s1)
                           | Inr s2 \<Rightarrow> Inr (s2\<lparr>opensky_api_failure_count := None\<rparr>)))
         in case first of
              Inr s' \<Rightarrow> s'
            | Inl (error, s') \<Rightarrow>
                if error = QuotaExceededError then
                  (let cleared = s'\<lparr>opensky_flight_data := None, opensky_flight_timestamp := None\<rparr>
                   in case setItem M (Data d) cleared of
                        Inl retryError \<Rightarrow> cleared
                      | Inr r1 \<Rightarrow>
                          (case setItem M (Timestamp now) r1 of
                             Inl retryError \<Rightarrow> r1
                           | Inr r2 \<Rightarrow> r2))
                else s'))"

definition loadFlightData_local :: "int \<Rightarrow> localStorage \<Rightarrow> FlightData option" where
  "loadFlightData_local now s =
     (if opensky_flight_timestamp s = None then None
      else
        (let age = now - the (opensky_flight_timestamp s);
             count = (case opensky_api_failure_count s of None \<Rightarrow> 0 | Some c \<Rightarrow> c);
             duration = (if count > 3 then 24 * 60 * 60 * 1000 else 5 * 60 * 1000)
         in if age > duration then None else opensky_flight_data s))"

section \<open>The live fetch\<close>

text \<open>\<^verbatim>\<open>state[i]\<close>: \<^verbatim>\<open>undefined\<close> (\<open>None\<close>) beyond the end of the array.\<close>

definition idx :: "jsval list \<Rightarrow> nat \<Rightarrow> jsval option" where
  "idx xs i = (if i < length xs then Some (xs ! i) else None)"

definition CALLSIGN :: nat where "CALLSIGN = 1"
definition LONGITUDE :: nat where "LONGITUDE = 5"
definition LATITUDE :: nat where "LATITUDE = 6"
definition BARO_ALTITUDE :: nat where "BARO_ALTITUDE = 7"
definition ON_GROUND :: nat where "ON_GROUND = 8"

text \<open>
  \<^verbatim>\<open>v < 0\<close>: both sides are converted to numbers. \<^verbatim>\<open>null\<close>, \<^verbatim>\<open>false\<close> and
  \<^verbatim>\<open>true\<close> become 0, 0 and 1, \<^verbatim>\<open>undefined\<close> becomes \<^verbatim>\<open>NaN\<close>, and every
  comparison with \<^verbatim>\<open>NaN\<close> is false. The conversion of strings, arrays and objects
  is the parameter \<open>ToNumber\<close> (\<open>None\<close>: \<^verbatim>\<open>NaN\<close>).
\<close>

definition lessThanZero :: "(jsval \<Rightarrow> real option) \<Rightarrow> jsval option \<Rightarrow> bool" where
  "lessThanZero ToNumber v =
     (case v of
        None \<Rightarrow> False
      | Some w \<Rightarrow>
          (case w of
             JNull \<Rightarrow> False
           | JBool b \<Rightarrow> False
           | JNum r \<Rightarrow> r < 0
           | JStr x \<Rightarrow> (case ToNumber w of None \<Rightarrow> False | Some r \<Rightarrow> r < 0)
           | JArr x \<Rightarrow> (case ToNumber w of None \<Rightarrow> False | Some r \<Rightarrow> r < 0)
           | JObj x \<Rightarrow> (case ToNumber w of None \<Rightarrow> False | Some r \<Rightarrow> r < 0)))"

text \<open>The predicate of \<^verbatim>\<open>data.states.filter\<close>.\<close>

definition validState :: "(jsval \<Rightarrow> real option) \<Rightarrow> state \<Rightarrow> bool" where
  "validState ToNumber st =
     (case st of
        None \<Rightarrow> False
      | Some fs \<Rightarrow>
          if length fs < 17 then False
          else
            (let lon = idx fs LONGITUDE;
                 lat = idx fs LATITUDE;
                 onGround = idx fs ON_GROUND;
                 baroAltitude = idx fs BARO_ALTITUDE
             in if lon = Some JNull \<or> lat = Some JNull
                   \<or> (lon = Some (JNum 0) \<and> lat = Some (JNum 0)) then False
                else if onGround = Some (JBool True) then False
                else if baroAltitude = Some JNull \<or> lessThanZero ToNumber baroAltitude then False
                else True))"

text \<open>
  The body of the OpenSky answer. Its \<^verbatim>\<open>states\<close> field is absent or falsy, or
  something that is not an array, or an array of state vectors.
\<close>

datatype states_field = StatesAbsent | StatesNotArray | StatesArray "state list"

record states_reply =
  reply_time :: real
  reply_states :: states_field

text \<open>
  \<^verbatim>\<open>fetchBrazilFlights\<close>: \<open>Inl\<close> is the exception thrown. \<open>live\<close> is the outcome of
  the request; the authorisation header only goes into the request.
\<close>

definition fetchBrazilFlights ::
  "(jsval \<Rightarrow> real option) \<Rightarrow> states_reply fetched \<Rightarrow> exn + FlightData" where
  "fetchBrazilFlights ToNumber live =
     (case live of
        Rejected \<Rightarrow> Inl TypeError
      | Resolved response \<Rightarrow>
          if \<not> ok response then
            (if status response = 429 then Inl RateLimitExceeded
             else if status response = 401 then Inl Unauthorized
             else Inl (HttpError (status response)))
          else
            (case json response of
               None \<Rightarrow> Inl SyntaxError
             | Some body \<Rightarrow>
                 (case reply_states body of
                    StatesAbsent \<Rightarrow> Inl InvalidResponseFormat
                  | StatesNotArray \<Rightarrow> Inl InvalidResponseFormat
                  | StatesArray xs \<Rightarrow>
                      Inr \<lparr>time = reply_time body,
                           states = Some (filter (validState ToNumber) xs)\<rparr>)))"

section \<open>The refresh cycle\<close>

text \<open>
  The React state of \<^verbatim>\<open>App\<close> that \<^verbatim>\<open>fetchData\<close> writes. Each rendered aircraft
  is computed from one state vector; \<open>aircraftData\<close> is represented by the state
  vectors that produced an aircraft, in order. \<open>error\<close> holds the exception whose
  message is shown. The cache status carries the number that the message shows.
\<close>

datatype cache_status =
    NoStatus
  | LoadedFromCache int
  | Saved nat
  | UsingCachedData "int option"
  | NoCachedData

record ui =
  aircraftData :: "jsval list list"
  error :: "exn option"
  isLoading :: bool
  cacheStatus :: cache_status

text \<open>\<^verbatim>\<open>Math.round(age / 1000 / 60)\<close>: halves round up.\<close>

definition ageMinutes :: "int \<Rightarrow> int" where
  "ageMinutes age = (age + 30000) div 60000"

definition truthy :: "jsval option \<Rightarrow> bool" where
  "truthy v =
     (case v of
        None \<Rightarrow> False
      | Some w \<Rightarrow>
          (case w of
             JNull \<Rightarrow> False
           | JBool b \<Rightarrow> b
           | JNum r \<Rightarrow> r \<noteq> 0
           | JStr x \<Rightarrow> x \<noteq> []
           | JArr x \<Rightarrow> True
           | JObj x \<Rightarrow> True))"

text \<open>
  The body of the \<^verbatim>\<open>forEach\<close> of \<^verbatim>\<open>processFlightData\<close>: a \<^verbatim>\<open>null\<close> entry and an
  entry whose longitude, latitude or barometric altitude is \<^verbatim>\<open>null\<close> are skipped.
\<close>

definition skipped :: "state \<Rightarrow> bool" where
  "skipped st =
     (case st of
        None \<Rightarrow> True
      | Some fs \<Rightarrow>
          idx fs LONGITUDE = Some JNull \<or> idx fs LATITUDE = Some JNull
          \<or> idx fs BARO_ALTITUDE = Some JNull)"

text \<open>\<^verbatim>\<open>callsign ? callsign.trim() : null\<close> throws on a truthy value that is no string.\<close>

definition trimThrows :: "state \<Rightarrow> bool" where
  "trimThrows st =
     (case st of
        None \<Rightarrow> False
      | Some fs \<Rightarrow>
          (let callsign = idx fs CALLSIGN
           in truthy callsign \<and> (case callsign of Some (JStr x) \<Rightarrow> False | _ \<Rightarrow> True)))"

text \<open>
  \<^verbatim>\<open>processFlightData\<close>: nothing happens without a \<^verbatim>\<open>states\<close> array; an exception
  inside the loop leaves \<^verbatim>\<open>aircraftData\<close> as it was.
\<close>

definition processFlightData :: "FlightData option \<Rightarrow> ui \<Rightarrow> exn + ui" where
  "processFlightData data u =
     (case data of
        None \<Rightarrow> Inr u
      | Some d \<Rightarrow>
          (case states d of
             None \<Rightarrow> Inr u
           | Some xs \<Rightarrow>
               (let kept = filter (\<lambda>st. \<not> skipped st) xs
                in if list_ex trimThrows kept then Inl TypeError
                   else Inr (u\<lparr>aircraftData := map the kept\<rparr>))))"

text \<open>\<^verbatim>\<open>cachedData && cachedData.states && cachedData.states.length > 0\<close>\<close>

definition hasStates :: "FlightData option \<Rightarrow> bool" where
  "hasStates cachedData =
     (case cachedData of
        None \<Rightarrow> False
      | Some d \<Rightarrow> (case states d of None \<Rightarrow> False | Some xs \<Rightarrow> xs \<noteq> []))"

text \<open>
  What one call of \<^verbatim>\<open>fetchData\<close> leaves: the storage, the React state, the settled
  mirror push if one was started, and the exception with which the returned promise
  rejects, if it does.
\<close>

record cycle =
  storage :: localStorage
  view :: ui
  pushed :: "(exn + bool) option"
  rejected :: "exn option"

text \<open>
  The \<^verbatim>\<open>try\<close> block, in two parts. The first part shows the cached snapshot at
  once, at clock \<open>t0\<close>: \<open>Inl\<close> is an exception with the React state at the throw.
\<close>

definition fetchData_cached :: "int \<Rightarrow> localStorage \<Rightarrow> ui \<Rightarrow> (exn \<times> ui) + ui" where
  "fetchData_cached t0 s u =
     (let u1 = u\<lparr>isLoading := True, error := None\<rparr>;
          cachedData = loadFlightData t0 s
      in if hasStates cachedData then
           (let age = (case opensky_flight_timestamp s of
                         None \<Rightarrow> 0 | Some timestamp \<Rightarrow> t0 - timestamp);
                u2 = u1\<lparr>cacheStatus := LoadedFromCache (ageMinutes age)\<rparr>
            in case processFlightData cachedData u2 of
                 Inl err \<Rightarrow> Inl (err, u2)
               | Inr u3 \<Rightarrow> Inr u3)
         else Inr u1)"

text \<open>
  The second part awaits the live fetch, which has settled at clock \<open>t1\<close>. \<open>Inl\<close>:
  an exception, with the clock and the state at the throw.
\<close>

definition fetchData_try ::
  "(jsval \<Rightarrow> real option) \<Rightarrow> medium \<Rightarrow> states_reply fetched \<Rightarrow> unit fetched \<Rightarrow> int \<Rightarrow> int
     \<Rightarrow> localStorage \<Rightarrow> ui
     \<Rightarrow> (exn \<times> int \<times> localStorage \<times> ui \<times> (exn + bool) option)
        + (localStorage \<times> ui \<times> (exn + bool) option)" where
  "fetchData_try ToNumber M live post t0 t1 s u =
     (case fetchData_cached t0 s u of
        Inl (err, u2) \<Rightarrow> Inl (err, t0, s, u2, None)
      | Inr u3 \<Rightarrow>
          (case fetchBrazilFlights ToNumber live of
             Inl err \<Rightarrow> Inl (err, t1, s, u3, None)
           | Inr d \<Rightarrow>
               (case states d of
                  None \<Rightarrow> Inl (TypeError, t1, s, u3, None)
                | Some xs \<Rightarrow>
                    if xs = [] then Inr (s, u3, None)
                    else
                      (let (s', p) = saveFlightData M post t1 (Some d) s;
                           u4 = u3\<lparr>cacheStatus := Saved (length xs)\<rparr>
                       in case processFlightData (Some d) u4 of
                            Inl err \<Rightarrow> Inl (err, t1, s', u4, p)
                          | Inr u5 \<Rightarrow> Inr (s', u5, p)))))"

text \<open>The \<^verbatim>\<open>catch\<close> block, entered at clock \<open>now\<close>.\<close>

definition fetchData_catch ::
  "medium \<Rightarrow> exn \<Rightarrow> int \<Rightarrow> localStorage \<Rightarrow> ui \<Rightarrow> (exn + bool) option \<Rightarrow> cycle" where
  "fetchData_catch M err now s u p =
     (let u1 = u\<lparr>error := Some err\<rparr>;
          s1 = recordApiFailure M s;
          normal = loadFlightData now s1;
          cachedData = (if \<not> hasStates normal then loadFlightDataEmergency s1 else normal)
      in if hasStates cachedData then
           (let age = (case opensky_flight_timestamp s1 of
                         None \<Rightarrow> None | Some timestamp \<Rightarrow> Some (now - timestamp));
                u2 = u1\<lparr>cacheStatus := UsingCachedData (map_option ageMinutes age)\<rparr>
            in case processFlightData cachedData u2 of
                 Inl e \<Rightarrow> \<lparr>storage = s1, view = u2, pushed = p, rejected = Some e\<rparr>
               | Inr u3 \<Rightarrow> \<lparr>storage = s1, view = u3, pushed = p, rejected = None\<rparr>)
         else \<lparr>storage = s1, view = u1\<lparr>cacheStatus := NoCachedData, aircraftData := []\<rparr>,
               pushed = p, rejected = None\<rparr>)"

text \<open>\<^verbatim>\<open>fetchData\<close>: \<^verbatim>\<open>try\<close>, \<^verbatim>\<open>catch\<close>, and \<^verbatim>\<open>finally { setIsLoading(false) }\<close>.\<close>

definition fetchData ::
  "(jsval \<Rightarrow> real option) \<Rightarrow> medium \<Rightarrow> states_reply fetched \<Rightarrow> unit fetched \<Rightarrow> int \<Rightarrow> int
     \<Rightarrow> localStorage \<Rightarrow> ui \<Rightarrow> cycle" where
  "fetchData ToNumber M live post t0 t1 s u =
     (let c = (case fetchData_try ToNumber M live post t0 t1 s u of
                 Inr (s', u', p) \<Rightarrow> \<lparr>storage = s', view = u', pushed = p, rejected = None\<rparr>
               | Inl (err, now, s', u', p) \<Rightarrow> fetchData_catch M err now s' u' p)
      in c\<lparr>view := (view c)\<lparr>isLoading := False\<rparr>\<rparr>)"

section \<open>Sample media and inputs\<close>

text \<open>A medium that accepts every write, and one that is full.\<close>

definition unlimited :: medium where
  "unlimited s i = None"

definition exhausted :: medium where
  "exhausted s i = Some QuotaExceededError"

text \<open>
  A medium with room for one snapshot: writing a snapshot while another one is
  stored exceeds the quota, every other write is accepted.
\<close>

definition single_slot :: medium where
  "single_slot s i =
     (case i of
        Data d \<Rightarrow> (if opensky_flight_data s = None then None else Some QuotaExceededError)
      | Timestamp t \<Rightarrow> None
      | FailureCount c \<Rightarrow> None)"

text \<open>
  A medium on which a snapshot of more than one aircraft exceeds the quota, and every
  other write is accepted.
\<close>

definition capped :: medium where
  "capped s i =
     (case i of
        Data d \<Rightarrow>
          (case states d of
             None \<Rightarrow> None
           | Some xs \<Rightarrow> if length xs > 1 then Some QuotaExceededError else None)
      | Timestamp t \<Rightarrow> None
      | FailureCount c \<Rightarrow> None)"

definition emptyStorage :: localStorage where
  "emptyStorage = \<lparr>opensky_flight_data = None, opensky_flight_timestamp = None,
                   opensky_api_failure_count = None\<rparr>"

definition blankView :: ui where
  "blankView = \<lparr>aircraftData = [], error = None, isLoading = True, cacheStatus = NoStatus\<rparr>"

text \<open>An airborne state vector of seventeen fields, and snapshots made of it.\<close>

definition airborne :: "jsval list" where
  "airborne = [JStr ''e48c01'', JStr ''TAM3301 '', JStr ''Brazil'', JNum 1700000000,
               JNum 1700000000, JNum (-46), JNum (-23), JNum 10000, JBool False, JNum 230,
               JNum 90, JNum 0, JNull, JNum 10300, JStr ''1234'', JBool False, JNum 0]"

definition snapshot :: "nat \<Rightarrow> FlightData" where
  "snapshot n = \<lparr>time = 1700000000, states = Some (replicate n (Some airborne))\<rparr>"

definition noStates :: "real \<Rightarrow> FlightData" where
  "noStates tm = \<lparr>time = tm, states = Some []\<rparr>"

text \<open>
  A storage with a one-aircraft snapshot saved at clock 1000, a live answer with no
  state vectors, and a conversion under which no string, array or object is a number.
\<close>

definition cachedStorage :: localStorage where
  "cachedStorage = \<lparr>opensky_flight_data = Some (snapshot 1),
                    opensky_flight_timestamp = Some 1000,
                    opensky_api_failure_count = None\<rparr>"

definition emptyReply :: "states_reply fetched" where
  "emptyReply = Resolved (Response True 200
                   (Some \<lparr>reply_time = 0, reply_states = StatesArray []\<rparr>))"

definition noCoercion :: "jsval \<Rightarrow> real option" where
  "noCoercion v = None"

text \<open>
  The same aircraft on the ground, and a live answer with four entries: the airborne
  aircraft, the grounded one, \<^verbatim>\<open>null\<close> and an empty array.
\<close>

definition grounded :: "jsval list" where
  "grounded = [JStr ''e48c01'', JStr ''TAM3301 '', JStr ''Brazil'', JNum 1700000000,
               JNum 1700000000, JNum (-46), JNum (-23), JNum 760, JBool True, JNum 0,
               JNum 90, JNum 0, JNull, JNum 780, JStr ''1234'', JBool False, JNum 0]"

definition mixedReply :: "states_reply fetched" where
  "mixedReply = Resolved (Response True 200
                   (Some \<lparr>reply_time = 1700000000,
                          reply_states = StatesArray [Some airborne, Some grounded, None,
                                                      Some []]\<rparr>))"

section \<open>The freshness policy\<close>

text \<open>
  C2: the acceptance window of \<^verbatim>\<open>loadFlightData\<close> depends on the failure count
  alone: five minutes up to and including three failures, twenty-four hours from four.
\<close>

theorem cacheDuration_step:
  "cacheDuration n = (if n \<le> 3 then 300000 else 86400000)
   \<and> cacheDuration 3 = 300000 \<and> cacheDuration 4 = 86400000"
  by (simp add: cacheDuration_def CACHE_DURATION_def EXTENDED_CACHE_DURATION_def)

section \<open>Facts about the storage operations\<close>

lemma recordApiFailure_accepted:
  "M s (FailureCount (failureCount s + 1)) = None \<Longrightarrow>
   opensky_api_failure_count (recordApiFailure M s) = Some (failureCount s + 1)"
  by (simp add: recordApiFailure_def setItem_def store_def)

lemma recordApiFailure_iterate:
  "(\<And>s c. M s (FailureCount c) = None) \<Longrightarrow>
   failureCount ((recordApiFailure M ^^ N) s) = failureCount s + int N"
proof (induction N)
  case 0
  then show ?case by simp
next
  case (Suc N)
  have "failureCount (recordApiFailure M t) = failureCount t + 1" for t
    using recordApiFailure_accepted [of M t] Suc.prems by (simp add: failureCount_def)
  with Suc show ?case by simp
qed

lemma recordApiFailure_written:
  "M s (FailureCount (failureCount s + 1)) = None \<Longrightarrow>
   recordApiFailure M s = s\<lparr>opensky_api_failure_count := Some (failureCount s + 1)\<rparr>"
  by (simp add: recordApiFailure_def setItem_def store_def)

lemma recordApiFailure_refused:
  "M s (FailureCount (failureCount s + 1)) \<noteq> None \<Longrightarrow> recordApiFailure M s = s"
  by (auto simp: recordApiFailure_def setItem_def)

lemma recordApiFailure_refused_iterate:
  "(\<And>s c. M s (FailureCount c) \<noteq> None) \<Longrightarrow> (recordApiFailure M ^^ N) s = s"
proof (induction N)
  case 0
  then show ?case by simp
next
  case (Suc N)
  then show ?case using recordApiFailure_refused [of M s] by simp
qed

lemma recordApiFailure_keeps_snapshot:
  "opensky_flight_data (recordApiFailure M s) = opensky_flight_data s
   \<and> opensky_flight_timestamp (recordApiFailure M s) = opensky_flight_timestamp s"
  by (cases "M s (FailureCount (failureCount s + 1))")
     (simp_all add: recordApiFailure_def setItem_def store_def)

lemma failures_keep_snapshot:
  "opensky_flight_data ((recordApiFailure M ^^ k) s) = opensky_flight_data s
   \<and> opensky_flight_timestamp ((recordApiFailure M ^^ k) s) = opensky_flight_timestamp s"
  by (induction k) (simp_all add: recordApiFailure_keeps_snapshot)

lemma save_accepted:
  assumes "states d = Some xs" "xs \<noteq> []"
    and "M s (Data d) = None"
    and "M (s\<lparr>opensky_flight_data := Some d\<rparr>) (Timestamp now) = None"
  shows "fst (saveFlightData M post now (Some d) s) =
           \<lparr>opensky_flight_data = Some d, opensky_flight_timestamp = Some now,
            opensky_api_failure_count = None\<rparr>"
  using assms by (simp add: saveFlightData_def setItem_def store_def)

lemma save_unlimited:
  "0 < n \<Longrightarrow>
   fst (saveFlightData unlimited post now (Some (snapshot n)) s) =
     \<lparr>opensky_flight_data = Some (snapshot n), opensky_flight_timestamp = Some now,
      opensky_api_failure_count = None\<rparr>"
  by (rule save_accepted [where xs = "replicate n (Some airborne)"])
     (simp_all add: snapshot_def unlimited_def)

lemma save_post_indep:
  "fst (saveFlightData M post now data s) = fst (saveFlightData M post' now data s)"
  by (simp add: saveFlightData_def saveFlightData_catch_def Let_def
      split: option.splits sum.splits)

section \<open>Saving nothing\<close>

lemma cycle_zero:
  assumes "fetchBrazilFlights T live = Inr d" "states d = Some []"
    and "fetchData_cached t0 s u = Inr u3"
  shows "fetchData T M live post t0 t1 s u
         = \<lparr>storage = s, view = u3\<lparr>isLoading := False\<rparr>, pushed = None, rejected = None\<rparr>"
  using assms by (simp add: fetchData_def fetchData_try_def)

text \<open>
  C3: \<^verbatim>\<open>saveFlightData\<close> called with no snapshot, with a snapshot without a
  \<^verbatim>\<open>states\<close> array or with an empty one leaves the storage as it is (snapshot,
  timestamp and failure count), starts no mirror push and throws nothing. In the
  refresh cycle, a live fetch that succeeds with zero entries leaves the storage
  untouched and keeps the view that the first part of the cycle left: only the
  loading flag is reset.
\<close>

theorem empty_snapshot_changes_nothing:
  "saveFlightData M post now None s = (s, None)
   \<and> (states d = None \<or> states d = Some [] \<longrightarrow>
        saveFlightData M post now (Some d) s = (s, None))
   \<and> (fetchBrazilFlights T live = Inr d' \<and> states d' = Some []
        \<and> fetchData_cached t0 s u = Inr u3 \<longrightarrow>
        fetchData T M live post t0 t1 s u
          = \<lparr>storage = s, view = u3\<lparr>isLoading := False\<rparr>, pushed = None, rejected = None\<rparr>)"
proof -
  have "saveFlightData M post now None s = (s, None)"
    by (simp add: saveFlightData_def)
  moreover have "states d = None \<or> states d = Some [] \<longrightarrow>
      saveFlightData M post now (Some d) s = (s, None)"
    by (auto simp: saveFlightData_def)
  ultimately show ?thesis
    using cycle_zero [of T live d' t0 s u u3 M post t1] by blast
qed

theorem empty_snapshot_changes_nothing_witness:
  "saveFlightData single_slot Rejected 7000 (Some (noStates 0)) cachedStorage
     = (cachedStorage, None)
   \<and> fetchData noCoercion single_slot emptyReply Rejected 2000 3000 cachedStorage blankView
     = \<lparr>storage = cachedStorage,
        view = \<lparr>aircraftData = [airborne], error = None, isLoading = False,
                cacheStatus = LoadedFromCache 0\<rparr>,
        pushed = None, rejected = None\<rparr>"
proof -
  have live: "fetchBrazilFlights noCoercion emptyReply = Inr (noStates 0)"
    by (simp add: fetchBrazilFlights_def emptyReply_def noStates_def)
  have cached: "fetchData_cached 2000 cachedStorage blankView
      = Inr \<lparr>aircraftData = [airborne], error = None, isLoading = True,
             cacheStatus = LoadedFromCache 0\<rparr>"
    by (simp add: fetchData_cached_def cachedStorage_def blankView_def loadFlightData_def
        cacheDuration_def failureCount_def CACHE_DURATION_def hasStates_def snapshot_def
        processFlightData_def skipped_def trimThrows_def truthy_def idx_def airborne_def
        ageMinutes_def CALLSIGN_def LONGITUDE_def LATITUDE_def BARO_ALTITUDE_def)
  have empty: "states (noStates 0) = Some []"
    by (simp add: noStates_def)
  show ?thesis
    using empty_snapshot_changes_nothing [of single_slot Rejected 7000 cachedStorage
        "noStates 0" noCoercion emptyReply "noStates 0" 2000 blankView _ 3000]
      live cached empty
    by simp
qed

section \<open>Counting failures\<close>

text \<open>
  C4, as stated, fails on a full medium: the write of the counter is rejected, the
  exception is caught, and the count stays where it was.
\<close>

theorem recordApiFailure_on_full_medium:
  "failureCount (recordApiFailure exhausted emptyStorage) \<noteq> failureCount emptyStorage + 1"
  by (simp add: recordApiFailure_def setItem_def exhausted_def failureCount_def
      emptyStorage_def)

text \<open>
  C4, amended: \<^verbatim>\<open>recordApiFailure\<close> returns no count. When the medium accepts the
  write of the counter, the call stores the count plus one and changes nothing else;
  when the medium rejects it, the call leaves the whole storage as it was. On a medium
  that accepts every counter write, \<open>N\<close> calls in a row add \<open>N\<close> to the count and
  give \<open>N\<close> from an absent counter; on a medium that rejects every counter write,
  \<open>N\<close> calls change nothing. A save of a non-empty snapshot whose two writes the
  medium accepts at the first attempt leaves that snapshot, its timestamp and no
  counter: the count is 0, whatever it was.
\<close>

theorem recordApiFailure_counts:
  "(M s (FailureCount (failureCount s + 1)) = None \<longrightarrow>
      recordApiFailure M s = s\<lparr>opensky_api_failure_count := Some (failureCount s + 1)\<rparr>
      \<and> failureCount (recordApiFailure M s) = failureCount s + 1)
   \<and> (M s (FailureCount (failureCount s + 1)) \<noteq> None \<longrightarrow> recordApiFailure M s = s)
   \<and> ((\<forall>s c. M s (FailureCount c) = None) \<longrightarrow>
        failureCount ((recordApiFailure M ^^ N) s) = failureCount s + int N
        \<and> failureCount ((recordApiFailure M ^^ N) emptyStorage) = int N)
   \<and> ((\<forall>s c. M s (FailureCount c) \<noteq> None) \<longrightarrow> (recordApiFailure M ^^ N) s = s)
   \<and> (states d = Some xs \<and> xs \<noteq> [] \<and> M s' (Data d) = None
        \<and> M (s'\<lparr>opensky_flight_data := Some d\<rparr>) (Timestamp now) = None \<longrightarrow>
        fst (saveFlightData M post now (Some d) s')
          = \<lparr>opensky_flight_data = Some d, opensky_flight_timestamp = Some now,
             opensky_api_failure_count = None\<rparr>
        \<and> failureCount (fst (saveFlightData M post now (Some d) s')) = 0)"
proof (intro conjI impI)
  assume "M s (FailureCount (failureCount s + 1)) = None"
  with recordApiFailure_written [of M s]
  show "recordApiFailure M s = s\<lparr>opensky_api_failure_count := Some (failureCount s + 1)\<rparr>"
    by simp
  then show "failureCount (recordApiFailure M s) = failureCount s + 1"
    by (simp add: failureCount_def)
next
  assume "M s (FailureCount (failureCount s + 1)) \<noteq> None"
  then show "recordApiFailure M s = s" by (rule recordApiFailure_refused)
next
  assume accepts: "\<forall>s c. M s (FailureCount c) = None"
  then show "failureCount ((recordApiFailure M ^^ N) s) = failureCount s + int N"
    using recordApiFailure_iterate [of M N s] by simp
  from accepts show "failureCount ((recordApiFailure M ^^ N) emptyStorage) = int N"
    using recordApiFailure_iterate [of M N emptyStorage]
    by (simp add: failureCount_def emptyStorage_def)
next
  assume "\<forall>s c. M s (FailureCount c) \<noteq> None"
  then show "(recordApiFailure M ^^ N) s = s"
    using recordApiFailure_refused_iterate [of M N s] by simp
next
  assume "states d = Some xs \<and> xs \<noteq> [] \<and> M s' (Data d) = None
        \<and> M (s'\<lparr>opensky_flight_data := Some d\<rparr>) (Timestamp now) = None"
  then have saved: "fst (saveFlightData M post now (Some d) s')
          = \<lparr>opensky_flight_data = Some d, opensky_flight_timestamp = Some now,
             opensky_api_failure_count = None\<rparr>"
    using save_accepted [of d xs M s' now post] by simp
  then show "fst (saveFlightData M post now (Some d) s')
          = \<lparr>opensky_flight_data = Some d, opensky_flight_timestamp = Some now,
             opensky_api_failure_count = None\<rparr>" .
  from saved show "failureCount (fst (saveFlightData M post now (Some d) s')) = 0"
    by (simp add: failureCount_def)
qed

theorem recordApiFailure_counts_witness:
  "recordApiFailure unlimited cachedStorage
     = cachedStorage\<lparr>opensky_api_failure_count := Some 1\<rparr>
   \<and> recordApiFailure exhausted cachedStorage = cachedStorage
   \<and> failureCount ((recordApiFailure unlimited ^^ 5) emptyStorage) = 5
   \<and> (recordApiFailure exhausted ^^ 5) cachedStorage = cachedStorage
   \<and> fst (saveFlightData unlimited Rejected 9000 (Some (snapshot 2))
        ((recordApiFailure unlimited ^^ 5) emptyStorage))
     = \<lparr>opensky_flight_data = Some (snapshot 2), opensky_flight_timestamp = Some 9000,
        opensky_api_failure_count = None\<rparr>"
proof -
  have nonempty: "states (snapshot 2) = Some (replicate 2 (Some airborne))
      \<and> replicate 2 (Some airborne) \<noteq> []"
    by (simp add: snapshot_def numeral_2_eq_2)
  have zero: "failureCount cachedStorage = 0"
    by (simp add: failureCount_def cachedStorage_def)
  have open_medium: "recordApiFailure unlimited cachedStorage
       = cachedStorage\<lparr>opensky_api_failure_count := Some 1\<rparr>
     \<and> failureCount ((recordApiFailure unlimited ^^ 5) emptyStorage) = 5
     \<and> fst (saveFlightData unlimited Rejected 9000 (Some (snapshot 2))
          ((recordApiFailure unlimited ^^ 5) emptyStorage))
       = \<lparr>opensky_flight_data = Some (snapshot 2), opensky_flight_timestamp = Some 9000,
          opensky_api_failure_count = None\<rparr>"
    using recordApiFailure_counts [of unlimited cachedStorage 5 "snapshot 2"
        "replicate 2 (Some airborne)" "(recordApiFailure unlimited ^^ 5) emptyStorage"
        9000 Rejected] nonempty zero
    by (simp add: unlimited_def)
  have full_medium: "recordApiFailure exhausted cachedStorage = cachedStorage
     \<and> (recordApiFailure exhausted ^^ 5) cachedStorage = cachedStorage"
    using recordApiFailure_counts [of exhausted cachedStorage 5]
    by (simp add: exhausted_def)
  from open_medium full_medium show ?thesis by simp
qed

section \<open>The full medium\<close>

text \<open>
  C5: the clear-and-retry path persists the snapshot and its timestamp but leaves
  the failure count. The medium has room for one snapshot, the storage holds an older
  snapshot, its timestamp and a count of 5. The first write is rejected for the quota,
  the old entry is cleared, the retry succeeds, and the count is still 5.
\<close>

theorem retry_keeps_failure_count:
  "fst (saveFlightData single_slot Rejected 2000 (Some (snapshot 2))
          \<lparr>opensky_flight_data = Some (snapshot 1), opensky_flight_timestamp = Some 1000,
           opensky_api_failure_count = Some 5\<rparr>)
   = \<lparr>opensky_flight_data = Some (snapshot 2), opensky_flight_timestamp = Some 2000,
      opensky_api_failure_count = Some 5\<rparr>"
  by (simp add: saveFlightData_def saveFlightData_catch_def setItem_def single_slot_def
      snapshot_def store_def clearFlightData_def numeral_2_eq_2)

section \<open>Loading\<close>

lemma load_stored:
  assumes "opensky_flight_data s = Some d" and "opensky_flight_timestamp s = Some t"
  shows "(loadFlightData now s = Some d \<longleftrightarrow> now - t \<le> cacheDuration (failureCount s))
     \<and> (loadFlightData now s = None \<longleftrightarrow> now - t > cacheDuration (failureCount s))
     \<and> loadFlightDataEmergency s = Some d"
  using assms
  by (auto simp: loadFlightData_def loadFlightDataEmergency_def Let_def split: option.splits)

text \<open>
  C6, as stated, fails after a save that hits the quota. On a medium where a snapshot
  of two aircraft exceeds the quota, a first save of one aircraft is stored and the
  emergency load returns it. The next save, of two aircraft, is rejected, its handler
  clears the old entry, the retry is rejected too, and the emergency load returns
  \<^verbatim>\<open>null\<close> although a save has occurred.
\<close>

theorem emergency_absent_after_save:
  "loadFlightDataEmergency
      (fst (saveFlightData capped Rejected 1000 (Some (snapshot 1)) emptyStorage))
     = Some (snapshot 1)
   \<and> loadFlightDataEmergency
      (fst (saveFlightData capped Rejected 2000 (Some (snapshot 2))
         (fst (saveFlightData capped Rejected 1000 (Some (snapshot 1)) emptyStorage))))
     = None"
proof -
  have first: "fst (saveFlightData capped Rejected 1000 (Some (snapshot 1)) emptyStorage)
      = \<lparr>opensky_flight_data = Some (snapshot 1), opensky_flight_timestamp = Some 1000,
         opensky_api_failure_count = None\<rparr>"
    by (simp add: saveFlightData_def setItem_def store_def capped_def snapshot_def
        emptyStorage_def)
  have second: "fst (saveFlightData capped Rejected 2000 (Some (snapshot 2))
         \<lparr>opensky_flight_data = Some (snapshot 1), opensky_flight_timestamp = Some 1000,
          opensky_api_failure_count = None\<rparr>) = emptyStorage"
    by (simp add: saveFlightData_def saveFlightData_catch_def clearFlightData_def setItem_def
        capped_def snapshot_def emptyStorage_def numeral_2_eq_2)
  show ?thesis
    unfolding first second by (simp add: loadFlightDataEmergency_def emptyStorage_def)
qed

text \<open>
  C6, amended: while the storage holds a snapshot and its timestamp,
  \<^verbatim>\<open>loadFlightData\<close> returns that snapshot exactly when its age is at most the
  window of the current failure count and \<^verbatim>\<open>null\<close> otherwise, and
  \<^verbatim>\<open>loadFlightDataEmergency\<close> returns the same snapshot whatever its age, also when
  the normal load has returned \<^verbatim>\<open>null\<close>. The storage is in that state after a save
  of a non-empty snapshot whose two writes the medium accepts at the first attempt,
  and it stays so through any number of recorded failures, on any medium. In every
  storage the emergency load returns \<^verbatim>\<open>null\<close> exactly when no snapshot is stored:
  that is so in the empty storage, before any save, and after \<^verbatim>\<open>clearFlightData\<close>,
  where the normal load returns \<^verbatim>\<open>null\<close> as well.
\<close>

theorem load_iff_within_window:
  "(opensky_flight_data s = Some d \<and> opensky_flight_timestamp s = Some t \<longrightarrow>
      (loadFlightData now s = Some d \<longleftrightarrow> now - t \<le> cacheDuration (failureCount s))
      \<and> (loadFlightData now s = None \<longleftrightarrow> now - t > cacheDuration (failureCount s))
      \<and> loadFlightDataEmergency s = Some d)
   \<and> (states d = Some xs \<and> xs \<noteq> [] \<and> M s0 (Data d) = None
        \<and> M (s0\<lparr>opensky_flight_data := Some d\<rparr>) (Timestamp t) = None
        \<and> s1 = (recordApiFailure M' ^^ k) (fst (saveFlightData M post t (Some d) s0)) \<longrightarrow>
      (loadFlightData now s1 = Some d \<longleftrightarrow> now - t \<le> cacheDuration (failureCount s1))
      \<and> (loadFlightData now s1 = None \<longleftrightarrow> now - t > cacheDuration (failureCount s1))
      \<and> loadFlightDataEmergency s1 = Some d)
   \<and> (loadFlightDataEmergency s = None \<longleftrightarrow> opensky_flight_data s = None)
   \<and> loadFlightDataEmergency emptyStorage = None
   \<and> loadFlightData now emptyStorage = None
   \<and> loadFlightDataEmergency (clearFlightData s) = None
   \<and> loadFlightData now (clearFlightData s) = None"
proof (intro conjI impI)
  assume "opensky_flight_data s = Some d \<and> opensky_flight_timestamp s = Some t"
  then have d: "opensky_flight_data s = Some d" and t: "opensky_flight_timestamp s = Some t"
    by simp_all
  from load_stored [OF d t, of now]
  show "loadFlightData now s = Some d \<longleftrightarrow> now - t \<le> cacheDuration (failureCount s)"
    and "loadFlightData now s = None \<longleftrightarrow> now - t > cacheDuration (failureCount s)"
    and "loadFlightDataEmergency s = Some d"
    by simp_all
next
  assume a: "states d = Some xs \<and> xs \<noteq> [] \<and> M s0 (Data d) = None
        \<and> M (s0\<lparr>opensky_flight_data := Some d\<rparr>) (Timestamp t) = None
        \<and> s1 = (recordApiFailure M' ^^ k) (fst (saveFlightData M post t (Some d) s0))"
  then have saved: "fst (saveFlightData M post t (Some d) s0)
      = \<lparr>opensky_flight_data = Some d, opensky_flight_timestamp = Some t,
         opensky_api_failure_count = None\<rparr>"
    using save_accepted [of d xs M s0 t post] by simp
  from a have s1: "s1 = (recordApiFailure M' ^^ k) (fst (saveFlightData M post t (Some d) s0))"
    by simp
  have d: "opensky_flight_data s1 = Some d" and t: "opensky_flight_timestamp s1 = Some t"
    using failures_keep_snapshot
      [where M = M' and k = k and s = "fst (saveFlightData M post t (Some d) s0)"]
    by (simp_all add: s1 saved)
  from load_stored [OF d t, of now]
  show "loadFlightData now s1 = Some d \<longleftrightarrow> now - t \<le> cacheDuration (failureCount s1)"
    and "loadFlightData now s1 = None \<longleftrightarrow> now - t > cacheDuration (failureCount s1)"
    and "loadFlightDataEmergency s1 = Some d"
    by simp_all
next
  show "loadFlightDataEmergency s = None \<longleftrightarrow> opensky_flight_data s = None"
    by (simp add: loadFlightDataEmergency_def split: option.splits)
  show "loadFlightDataEmergency emptyStorage = None"
    by (simp add: loadFlightDataEmergency_def emptyStorage_def)
  show "loadFlightData now emptyStorage = None"
    by (simp add: loadFlightData_def emptyStorage_def)
  show "loadFlightDataEmergency (clearFlightData s) = None"
    by (simp add: loadFlightDataEmergency_def clearFlightData_def)
  show "loadFlightData now (clearFlightData s) = None"
    by (simp add: loadFlightData_def clearFlightData_def)
qed

theorem load_iff_within_window_witness:
  "loadFlightData 301000 cachedStorage = Some (snapshot 1)
   \<and> loadFlightData 301001 cachedStorage = None
   \<and> loadFlightDataEmergency cachedStorage = Some (snapshot 1)
   \<and> loadFlightData 86401000
        ((recordApiFailure exhausted ^^ 4)
           (fst (saveFlightData unlimited Rejected 1000 (Some (snapshot 1)) emptyStorage)))
      = None
   \<and> loadFlightData 86401000
        ((recordApiFailure unlimited ^^ 4)
           (fst (saveFlightData unlimited Rejected 1000 (Some (snapshot 1)) emptyStorage)))
      = Some (snapshot 1)
   \<and> loadFlightData 86401001
        ((recordApiFailure unlimited ^^ 4)
           (fst (saveFlightData unlimited Rejected 1000 (Some (snapshot 1)) emptyStorage)))
      = None
   \<and> loadFlightDataEmergency
        ((recordApiFailure unlimited ^^ 4)
           (fst (saveFlightData unlimited Rejected 1000 (Some (snapshot 1)) emptyStorage)))
      = Some (snapshot 1)"
proof -
  let ?saved = "fst (saveFlightData unlimited Rejected 1000 (Some (snapshot 1)) emptyStorage)"
  have stored: "opensky_flight_data cachedStorage = Some (snapshot 1)
      \<and> opensky_flight_timestamp cachedStorage = Some 1000"
    by (simp add: cachedStorage_def)
  have short: "cacheDuration (failureCount cachedStorage) = 300000"
    by (simp add: cachedStorage_def cacheDuration_def failureCount_def CACHE_DURATION_def)
  have state: "loadFlightData 301000 cachedStorage = Some (snapshot 1)
     \<and> loadFlightData 301001 cachedStorage = None
     \<and> loadFlightDataEmergency cachedStorage = Some (snapshot 1)"
    using load_iff_within_window [of cachedStorage "snapshot 1" 1000 301000]
      load_iff_within_window [of cachedStorage "snapshot 1" 1000 301001] stored short
    by simp
  have nonempty: "states (snapshot 1) = Some (replicate 1 (Some airborne))
      \<and> replicate 1 (Some airborne) \<noteq> []"
    by (simp add: snapshot_def)
  have accepted: "unlimited emptyStorage (Data (snapshot 1)) = None
      \<and> unlimited (emptyStorage\<lparr>opensky_flight_data := Some (snapshot 1)\<rparr>) (Timestamp 1000)
          = None"
    by (simp add: unlimited_def)
  have saved: "?saved = \<lparr>opensky_flight_data = Some (snapshot 1),
      opensky_flight_timestamp = Some 1000, opensky_api_failure_count = None\<rparr>"
    using save_unlimited [of 1 Rejected 1000 emptyStorage] by simp
  have refused: "(recordApiFailure exhausted ^^ 4) ?saved = ?saved"
    using recordApiFailure_refused_iterate [of exhausted 4 ?saved]
    by (simp add: exhausted_def)
  have "failureCount ?saved = 0"
    by (simp only: saved) (simp add: failureCount_def)
  with refused
  have zero: "cacheDuration (failureCount ((recordApiFailure exhausted ^^ 4) ?saved)) = 300000"
    by (simp add: cacheDuration_def CACHE_DURATION_def)
  have four: "cacheDuration (failureCount ((recordApiFailure unlimited ^^ 4) ?saved))
      = 86400000"
    using recordApiFailure_iterate [of unlimited 4 ?saved]
    unfolding saved
    by (simp add: unlimited_def cacheDuration_def failureCount_def
        EXTENDED_CACHE_DURATION_def)
  have full: "loadFlightData 86401000 ((recordApiFailure exhausted ^^ 4) ?saved) = None"
    using load_iff_within_window [where d = "snapshot 1" and t = 1000 and now = 86401000
        and xs = "replicate 1 (Some airborne)" and M = unlimited and ?s0.0 = emptyStorage
        and ?s1.0 = "(recordApiFailure exhausted ^^ 4) ?saved" and M' = exhausted and k = 4
        and post = Rejected]
      nonempty accepted zero
    by simp
  have long: "loadFlightData 86401000 ((recordApiFailure unlimited ^^ 4) ?saved)
       = Some (snapshot 1)
     \<and> loadFlightDataEmergency ((recordApiFailure unlimited ^^ 4) ?saved)
       = Some (snapshot 1)"
    using load_iff_within_window [where d = "snapshot 1" and t = 1000 and now = 86401000
        and xs = "replicate 1 (Some airborne)" and M = unlimited and ?s0.0 = emptyStorage
        and ?s1.0 = "(recordApiFailure unlimited ^^ 4) ?saved" and M' = unlimited and k = 4
        and post = Rejected]
      nonempty accepted four
    by simp
  have expired: "loadFlightData 86401001 ((recordApiFailure unlimited ^^ 4) ?saved) = None"
    using load_iff_within_window [where d = "snapshot 1" and t = 1000 and now = 86401001
        and xs = "replicate 1 (Some airborne)" and M = unlimited and ?s0.0 = emptyStorage
        and ?s1.0 = "(recordApiFailure unlimited ^^ 4) ?saved" and M' = unlimited and k = 4
        and post = Rejected]
      nonempty accepted four
    by simp
  from state full long expired show ?thesis by simp
qed

section \<open>Clearing\<close>

text \<open>
  C8: \<^verbatim>\<open>clearFlightData\<close> removes the snapshot and its timestamp and leaves the
  failure count as it is.
\<close>

theorem clearFlightData_frame:
  "opensky_flight_data (clearFlightData s) = None
   \<and> opensky_flight_timestamp (clearFlightData s) = None
   \<and> opensky_api_failure_count (clearFlightData s) = opensky_api_failure_count s
   \<and> failureCount (clearFlightData s) = failureCount s"
  by (simp add: clearFlightData_def failureCount_def)

section \<open>The two storage modules\<close>

lemma saveFlightData_catch_local:
  "fst (saveFlightData_catch M post now d e s) =
     (if e = QuotaExceededError then
        (case setItem M (Data d)
                (s\<lparr>opensky_flight_data := None, opensky_flight_timestamp := None\<rparr>) of
           Inl x \<Rightarrow> s\<lparr>opensky_flight_data := None, opensky_flight_timestamp := None\<rparr>
         | Inr r1 \<Rightarrow> (case setItem M (Timestamp now) r1 of Inl x \<Rightarrow> r1 | Inr r2 \<Rightarrow> r2))
      else s)"
  by (simp add: saveFlightData_catch_def clearFlightData_def Let_def split: sum.splits)

lemma saveFlightData_agree:
  "fst (saveFlightData M post now data s) = saveFlightData_local M now data s"
proof (cases data)
  case None
  then show ?thesis by (simp add: saveFlightData_def saveFlightData_local_def)
next
  case (Some d)
  show ?thesis
  proof (cases "states d")
    case None
    with Some show ?thesis by (simp add: saveFlightData_def saveFlightData_local_def)
  next
    case present: (Some xs)
    show ?thesis
    proof (cases "xs = []")
      case True
      with Some present show ?thesis
        by (simp add: saveFlightData_def saveFlightData_local_def)
    next
      case False
      show ?thesis
      proof (cases "setItem M (Data d) s")
        case (Inl e)
        with Some present False show ?thesis
          by (simp add: saveFlightData_def saveFlightData_local_def
              saveFlightData_catch_local Let_def)
      next
        case first: (Inr s1)
        show ?thesis
        proof (cases "setItem M (Timestamp now) s1")
          case (Inl e)
          with Some present False first show ?thesis
            by (simp add: saveFlightData_def saveFlightData_local_def
                saveFlightData_catch_local Let_def)
        next
          case (Inr s2)
          with Some present False first show ?thesis
            by (simp add: saveFlightData_def saveFlightData_local_def)
        qed
      qed
    qed
  qed
qed

lemma loadFlightData_agree: "loadFlightData now s = loadFlightData_local now s"
  by (cases "opensky_flight_timestamp s"; cases "opensky_flight_data s")
     (simp_all add: loadFlightData_def loadFlightData_local_def failureCount_def
        cacheDuration_def CACHE_DURATION_def EXTENDED_CACHE_DURATION_def Let_def)

text \<open>
  C9: for every snapshot, clock, medium and storage, \<^verbatim>\<open>saveFlightData\<close> of
  \<^verbatim>\<open>storage.ts\<close> leaves the same storage as the copy without the mirror, whatever
  the mirror answers, and the two \<^verbatim>\<open>loadFlightData\<close> return the same value.
\<close>

theorem storage_modules_agree:
  "fst (saveFlightData M post now data s) = saveFlightData_local M now data s
   \<and> loadFlightData now s = loadFlightData_local now s"
  using saveFlightData_agree [of M post now data s] loadFlightData_agree [of now s]
  by simp


section \<open>The mirror push\<close>

lemma fetchData_catch_push:
  "storage (fetchData_catch M e n s u p) = storage (fetchData_catch M e n s u p')
   \<and> view (fetchData_catch M e n s u p) = view (fetchData_catch M e n s u p')
   \<and> rejected (fetchData_catch M e n s u p) = rejected (fetchData_catch M e n s u p')"
  by (simp add: fetchData_catch_def Let_def split: sum.splits)

lemma fetchData_post:
  "storage (fetchData T M live post t0 t1 s u) = storage (fetchData T M live post' t0 t1 s u)
   \<and> view (fetchData T M live post t0 t1 s u) = view (fetchData T M live post' t0 t1 s u)
   \<and> rejected (fetchData T M live post t0 t1 s u)
       = rejected (fetchData T M live post' t0 t1 s u)"
proof (cases "fetchData_cached t0 s u")
  case (Inl a)
  then show ?thesis by (cases a) (simp add: fetchData_def fetchData_try_def)
next
  case cached: (Inr u3)
  show ?thesis
  proof (cases "fetchBrazilFlights T live")
    case (Inl e)
    with cached show ?thesis by (simp add: fetchData_def fetchData_try_def)
  next
    case live: (Inr d)
    show ?thesis
    proof (cases "states d")
      case None
      with cached live show ?thesis by (simp add: fetchData_def fetchData_try_def)
    next
      case (Some xs)
      show ?thesis
      proof (cases "xs = []")
        case True
        with cached live Some show ?thesis by (simp add: fetchData_def fetchData_try_def)
      next
        case False
        obtain s' p where sv: "saveFlightData M post t1 (Some d) s = (s', p)"
          by (cases "saveFlightData M post t1 (Some d) s")
        obtain s'' p' where sv': "saveFlightData M post' t1 (Some d) s = (s'', p')"
          by (cases "saveFlightData M post' t1 (Some d) s")
        from sv sv' save_post_indep [of M post t1 "Some d" s post'] have same: "s'' = s'"
          by simp
        show ?thesis
        proof (cases "processFlightData (Some d) (u3\<lparr>cacheStatus := Saved (length xs)\<rparr>)")
          case (Inl e)
          with cached live Some False sv sv' same fetchData_catch_push [of M e t1 s' _ p p']
          show ?thesis by (simp add: fetchData_def fetchData_try_def Let_def)
        next
          case (Inr u5)
          with cached live Some False sv sv' same
          show ?thesis by (simp add: fetchData_def fetchData_try_def)
        qed
      qed
    qed
  qed
qed

text \<open>
  C7: the promise of \<^verbatim>\<open>saveFlightDataToVercel\<close> never rejects, whatever the
  snapshot and whatever the endpoint does. The storage that \<^verbatim>\<open>saveFlightData\<close>
  leaves does not depend on the outcome of the push, and neither do the storage, the
  view and the settlement of a whole refresh cycle.
\<close>

theorem mirror_push_is_detached:
  "\<not> isl (saveFlightDataToVercel post data)
   \<and> fst (saveFlightData M post now data s) = fst (saveFlightData M post' now data s)
   \<and> storage (fetchData T M live post t0 t1 s u) = storage (fetchData T M live post' t0 t1 s u)
   \<and> view (fetchData T M live post t0 t1 s u) = view (fetchData T M live post' t0 t1 s u)
   \<and> rejected (fetchData T M live post t0 t1 s u)
       = rejected (fetchData T M live post' t0 t1 s u)"
proof -
  have "\<not> isl (saveFlightDataToVercel post data)"
    by (simp add: saveFlightDataToVercel_def Let_def split: sum.splits)
  then show ?thesis
    using save_post_indep [of M post now data s post']
      fetchData_post [of T M live post t0 t1 s u post']
    by simp
qed

section \<open>The fallback chain\<close>

text \<open>
  C1: the failure path of \<^verbatim>\<open>fetchData\<close> reads the local cache only. The live
  fetch is answered 429, the local storage is empty, the mirror endpoint holds a
  snapshot of two aircraft and the static file one of three:
  \<^verbatim>\<open>loadFlightDataFromVercel\<close> and \<^verbatim>\<open>loadStaticFlightData\<close> would return
  them, but the cycle records the failure and shows an empty map.
\<close>

theorem failure_path_stops_at_local_cache:
  "loadFlightDataFromVercel
      (Resolved (Response True 200
         (Some \<lparr>reply_success = True, reply_data = Some (snapshot 2)\<rparr>)))
     = Some (snapshot 2)
   \<and> loadStaticFlightData (Resolved (Response True 200 (Some (snapshot 3))))
     = Some (snapshot 3)
   \<and> fetchData noCoercion unlimited (Resolved (Response False 429 None)) Rejected 0 1000
        emptyStorage blankView
     = \<lparr>storage = \<lparr>opensky_flight_data = None, opensky_flight_timestamp = None,
                     opensky_api_failure_count = Some 1\<rparr>,
        view = \<lparr>aircraftData = [], error = Some RateLimitExceeded, isLoading = False,
                cacheStatus = NoCachedData\<rparr>,
        pushed = None, rejected = None\<rparr>"
proof -
  have mirror: "loadFlightDataFromVercel
      (Resolved (Response True 200
         (Some \<lparr>reply_success = True, reply_data = Some (snapshot 2)\<rparr>)))
     = Some (snapshot 2)"
    by (simp add: loadFlightDataFromVercel_def snapshot_def)
  have static: "loadStaticFlightData (Resolved (Response True 200 (Some (snapshot 3))))
     = Some (snapshot 3)"
    by (simp add: loadStaticFlightData_def snapshot_def)
  have first: "fetchData_cached 0 emptyStorage blankView = Inr blankView"
    by (simp add: fetchData_cached_def loadFlightData_def emptyStorage_def hasStates_def
        blankView_def)
  have live: "fetchBrazilFlights noCoercion (Resolved (Response False 429 None))
     = Inl RateLimitExceeded"
    by (simp add: fetchBrazilFlights_def)
  have handler: "fetchData_catch unlimited RateLimitExceeded 1000 emptyStorage blankView None
     = \<lparr>storage = \<lparr>opensky_flight_data = None, opensky_flight_timestamp = None,
                     opensky_api_failure_count = Some 1\<rparr>,
        view = \<lparr>aircraftData = [], error = Some RateLimitExceeded, isLoading = True,
                cacheStatus = NoCachedData\<rparr>,
        pushed = None, rejected = None\<rparr>"
    by (simp add: fetchData_catch_def recordApiFailure_def setItem_def store_def
        unlimited_def failureCount_def emptyStorage_def loadFlightData_def
        loadFlightDataEmergency_def hasStates_def blankView_def)
  from first live handler have "fetchData noCoercion unlimited
        (Resolved (Response False 429 None)) Rejected 0 1000 emptyStorage blankView
     = \<lparr>storage = \<lparr>opensky_flight_data = None, opensky_flight_timestamp = None,
                     opensky_api_failure_count = Some 1\<rparr>,
        view = \<lparr>aircraftData = [], error = Some RateLimitExceeded, isLoading = False,
                cacheStatus = NoCachedData\<rparr>,
        pushed = None, rejected = None\<rparr>"
    by (simp add: fetchData_def fetchData_try_def)
  with mirror static show ?thesis by simp
qed

section \<open>The filter of the live fetch\<close>

lemma validState_fields:
  assumes "validState T st"
  shows "\<exists>fs. st = Some fs \<and> 17 \<le> length fs
     \<and> fs ! LONGITUDE \<noteq> JNull \<and> fs ! LATITUDE \<noteq> JNull
     \<and> \<not> (fs ! LONGITUDE = JNum 0 \<and> fs ! LATITUDE = JNum 0)
     \<and> fs ! ON_GROUND \<noteq> JBool True
     \<and> fs ! BARO_ALTITUDE \<noteq> JNull \<and> \<not> lessThanZero T (Some (fs ! BARO_ALTITUDE))"
proof (cases st)
  case None
  with assms show ?thesis by (simp add: validState_def)
next
  case (Some fs)
  with assms have len: "17 \<le> length fs"
    by (simp add: validState_def split: if_splits)
  then have at: "idx fs LONGITUDE = Some (fs ! LONGITUDE)" "idx fs LATITUDE = Some (fs ! LATITUDE)"
    "idx fs ON_GROUND = Some (fs ! ON_GROUND)"
    "idx fs BARO_ALTITUDE = Some (fs ! BARO_ALTITUDE)"
    by (simp_all add: idx_def LONGITUDE_def LATITUDE_def ON_GROUND_def BARO_ALTITUDE_def)
  from assms Some len show ?thesis
    by (simp add: validState_def Let_def at split: if_splits)
qed

lemma lessThanZero_number: "\<not> lessThanZero T (Some (JNum r)) \<Longrightarrow> 0 \<le> r"
  by (simp add: lessThanZero_def)

lemma fetchBrazilFlights_result:
  assumes "fetchBrazilFlights T live = Inr d"
  shows "\<exists>ys. states d = Some (filter (validState T) ys)"
proof (cases live)
  case Rejected
  with assms show ?thesis by (simp add: fetchBrazilFlights_def)
next
  case (Resolved response)
  show ?thesis
  proof (cases "json response")
    case None
    with assms Resolved show ?thesis
      by (simp add: fetchBrazilFlights_def split: if_splits)
  next
    case (Some body)
    with assms Resolved show ?thesis
      by (cases "reply_states body") (auto simp: fetchBrazilFlights_def split: if_splits)
  qed
qed

text \<open>
  C10: every entry of a snapshot returned by \<^verbatim>\<open>fetchBrazilFlights\<close> is an array of
  at least 17 fields whose longitude and latitude are not \<^verbatim>\<open>null\<close> and not both 0,
  whose on-ground flag is not \<^verbatim>\<open>true\<close>, and whose barometric altitude is not
  \<^verbatim>\<open>null\<close> and not below 0 (a number there is at least 0). An answer with an array of
  state vectors gives exactly the entries that pass the filter; an answer whose
  \<^verbatim>\<open>states\<close> field is missing or is no array makes the fetch throw the
  invalid-format error.
\<close>

theorem fetchBrazilFlights_filtered:
  "(fetchBrazilFlights T live = Inr d \<longrightarrow>
      (\<exists>xs. states d = Some xs \<and>
         (\<forall>st \<in> set xs. \<exists>fs. st = Some fs \<and> 17 \<le> length fs
             \<and> fs ! LONGITUDE \<noteq> JNull \<and> fs ! LATITUDE \<noteq> JNull
             \<and> \<not> (fs ! LONGITUDE = JNum 0 \<and> fs ! LATITUDE = JNum 0)
             \<and> fs ! ON_GROUND \<noteq> JBool True
             \<and> fs ! BARO_ALTITUDE \<noteq> JNull
             \<and> \<not> lessThanZero T (Some (fs ! BARO_ALTITUDE))
             \<and> (\<forall>r. fs ! BARO_ALTITUDE = JNum r \<longrightarrow> 0 \<le> r))))
   \<and> (reply_states body = StatesArray ys \<longrightarrow>
        fetchBrazilFlights T (Resolved (Response True code (Some body)))
          = Inr \<lparr>time = reply_time body, states = Some (filter (validState T) ys)\<rparr>)
   \<and> (reply_states body = StatesAbsent \<or> reply_states body = StatesNotArray \<longrightarrow>
        fetchBrazilFlights T (Resolved (Response True code (Some body)))
          = Inl InvalidResponseFormat)"
proof (intro conjI impI)
  assume "fetchBrazilFlights T live = Inr d"
  then obtain ys where ys: "states d = Some (filter (validState T) ys)"
    using fetchBrazilFlights_result by blast
  have "\<exists>fs. st = Some fs \<and> 17 \<le> length fs
             \<and> fs ! LONGITUDE \<noteq> JNull \<and> fs ! LATITUDE \<noteq> JNull
             \<and> \<not> (fs ! LONGITUDE = JNum 0 \<and> fs ! LATITUDE = JNum 0)
             \<and> fs ! ON_GROUND \<noteq> JBool True
             \<and> fs ! BARO_ALTITUDE \<noteq> JNull
             \<and> \<not> lessThanZero T (Some (fs ! BARO_ALTITUDE))
             \<and> (\<forall>r. fs ! BARO_ALTITUDE = JNum r \<longrightarrow> 0 \<le> r)"
    if "st \<in> set (filter (validState T) ys)" for st
  proof -
    from that have "validState T st" by simp
    from validState_fields [OF this] obtain fs where fs: "st = Some fs" "17 \<le> length fs"
      "fs ! LONGITUDE \<noteq> JNull" "fs ! LATITUDE \<noteq> JNull"
      "\<not> (fs ! LONGITUDE = JNum 0 \<and> fs ! LATITUDE = JNum 0)"
      "fs ! ON_GROUND \<noteq> JBool True" "fs ! BARO_ALTITUDE \<noteq> JNull"
      "\<not> lessThanZero T (Some (fs ! BARO_ALTITUDE))"
      by blast
    from fs(8) have "\<forall>r. fs ! BARO_ALTITUDE = JNum r \<longrightarrow> 0 \<le> r"
      using lessThanZero_number [of T] by auto
    with fs show ?thesis by blast
  qed
  with ys show "\<exists>xs. states d = Some xs \<and>
         (\<forall>st \<in> set xs. \<exists>fs. st = Some fs \<and> 17 \<le> length fs
             \<and> fs ! LONGITUDE \<noteq> JNull \<and> fs ! LATITUDE \<noteq> JNull
             \<and> \<not> (fs ! LONGITUDE = JNum 0 \<and> fs ! LATITUDE = JNum 0)
             \<and> fs ! ON_GROUND \<noteq> JBool True
             \<and> fs ! BARO_ALTITUDE \<noteq> JNull
             \<and> \<not> lessThanZero T (Some (fs ! BARO_ALTITUDE))
             \<and> (\<forall>r. fs ! BARO_ALTITUDE = JNum r \<longrightarrow> 0 \<le> r))"
    by blast
next
  assume "reply_states body = StatesArray ys"
  then show "fetchBrazilFlights T (Resolved (Response True code (Some body)))
          = Inr \<lparr>time = reply_time body, states = Some (filter (validState T) ys)\<rparr>"
    by (simp add: fetchBrazilFlights_def)
next
  assume "reply_states body = StatesAbsent \<or> reply_states body = StatesNotArray"
  then show "fetchBrazilFlights T (Resolved (Response True code (Some body)))
          = Inl InvalidResponseFormat"
    by (auto simp: fetchBrazilFlights_def)
qed

theorem fetchBrazilFlights_filtered_witness:
  "fetchBrazilFlights noCoercion mixedReply
     = Inr \<lparr>time = 1700000000, states = Some [Some airborne]\<rparr>
   \<and> 17 \<le> length airborne
   \<and> airborne ! LONGITUDE \<noteq> JNull \<and> airborne ! LATITUDE \<noteq> JNull
   \<and> airborne ! ON_GROUND \<noteq> JBool True
   \<and> airborne ! BARO_ALTITUDE \<noteq> JNull
   \<and> \<not> lessThanZero noCoercion (Some (airborne ! BARO_ALTITUDE))
   \<and> fetchBrazilFlights noCoercion
        (Resolved (Response True 200
           (Some \<lparr>reply_time = 1700000000, reply_states = StatesAbsent\<rparr>)))
     = Inl InvalidResponseFormat"
proof -
  have keep: "filter (validState noCoercion) [Some airborne, Some grounded, None, Some []]
      = [Some airborne]"
    by (simp add: validState_def idx_def airborne_def grounded_def lessThanZero_def
        LONGITUDE_def LATITUDE_def ON_GROUND_def BARO_ALTITUDE_def)
  have body: "reply_states \<lparr>reply_time = 1700000000,
      reply_states = StatesArray [Some airborne, Some grounded, None, Some []]\<rparr>
      = StatesArray [Some airborne, Some grounded, None, Some []]"
    by simp
  have absent: "reply_states \<lparr>reply_time = 1700000000, reply_states = StatesAbsent\<rparr>
      = StatesAbsent"
    by simp
  have run: "fetchBrazilFlights noCoercion mixedReply
      = Inr \<lparr>time = 1700000000, states = Some [Some airborne]\<rparr>"
    using fetchBrazilFlights_filtered [of noCoercion mixedReply _
        "\<lparr>reply_time = 1700000000,
          reply_states = StatesArray [Some airborne, Some grounded, None, Some []]\<rparr>"
        "[Some airborne, Some grounded, None, Some []]" 200] body keep
    by (simp add: mixedReply_def)
  have bad: "fetchBrazilFlights noCoercion
        (Resolved (Response True 200
           (Some \<lparr>reply_time = 1700000000, reply_states = StatesAbsent\<rparr>)))
     = Inl InvalidResponseFormat"
    using fetchBrazilFlights_filtered [of noCoercion _ _
        "\<lparr>reply_time = 1700000000, reply_states = StatesAbsent\<rparr>" _ 200] absent
    by simp
  have "states \<lparr>time = 1700000000, states = Some [Some airborne]\<rparr> = Some [Some airborne]"
    by simp
  with run fetchBrazilFlights_filtered [of noCoercion mixedReply
      "\<lparr>time = 1700000000, states = Some [Some airborne]\<rparr>"]
  have "17 \<le> length airborne
     \<and> airborne ! LONGITUDE \<noteq> JNull \<and> airborne ! LATITUDE \<noteq> JNull
     \<and> airborne ! ON_GROUND \<noteq> JBool True
     \<and> airborne ! BARO_ALTITUDE \<noteq> JNull
     \<and> \<not> lessThanZero noCoercion (Some (airborne ! BARO_ALTITUDE))"
    by simp
  with run bad show ?thesis by simp
qed


end
